theory Spec2Isabelle
  imports Main
begin

section \<open>The Slack bridge of scripts/pm_slack_bridge.py\<close>

text \<open>
  The script is one event handler, \<open>handle_mention\<close>, around three collaborators it does
  not own: the chat transport (\<open>say\<close>, \<open>app.client.files_upload\<close>), the agent
  (\<open>pm_agent.initiate_chat\<close>) and the local temporary file. The embedding keeps the
  handler's control flow as it is written and makes the collaborators explicit:
  \<^item> every call to a collaborator is appended, with its arguments, to the list \<open>calls\<close>
    of the state, whether the call then returns or raises;
  \<^item> what each call does (return, or raise an exception) is an input of the handler, one
    field per call site in the record \<open>outcomes\<close>; each call site runs at most once per
    event;
  \<^item> an exception is a value: the handler returns \<open>Some e\<close> when \<open>e\<close> leaves it and
    \<open>None\<close> when it returns normally;
  \<^item> the temporary file lives in a small file system \<open>disk\<close> (path to contents) with
    the list \<open>handles\<close> of the paths held open.
\<close>

subsection \<open>Exceptions\<close>

text \<open>
  The class of a raised exception, as far as the script can tell classes apart:
  \<open>KeyError\<close> (a missing dictionary key), \<open>FileExistsError\<close> (no usable temporary name),
  \<open>Exception\<close> for any other instance of Python's \<open>Exception\<close>, and \<open>BaseException\<close> for
  what is not an instance of \<open>Exception\<close> (\<open>CancelledError\<close>, \<open>KeyboardInterrupt\<close>,
  \<open>SystemExit\<close>), which \<open>except Exception\<close> lets through. The string is \<open>str(e)\<close>.
\<close>

datatype exn_class = KeyError | FileExistsError | Exception | BaseException

datatype exn = Raise exn_class string

fun class_of :: "exn \<Rightarrow> exn_class" where
  "class_of (Raise c d) = c"

fun str_exn :: "exn \<Rightarrow> string" where
  "str_exn (Raise c d) = d"

text \<open>\<open>isinstance(e, Exception)\<close>: what the clause \<open>except Exception as e\<close> (line 57) catches.\<close>

fun is_Exception :: "exn \<Rightarrow> bool" where
  "is_Exception (Raise c d) = (c \<noteq> BaseException)"

text \<open>
  \<open>d[k]\<close> on a dictionary with string keys raises \<open>KeyError(k)\<close> when the key is missing;
  \<open>str\<close> of that error is \<open>repr(k)\<close>, the key between single quotes (the keys of this
  script are literals without quotes or escapes).
\<close>

definition key_error :: "string \<Rightarrow> exn" where
  "key_error k = Raise KeyError (CHR 0x27 # k @ [CHR 0x27])"

definition getitem :: "(string \<rightharpoonup> 'v) \<Rightarrow> string \<Rightarrow> exn + 'v" where
  "getitem d k = (case d k of None \<Rightarrow> Inl (key_error k) | Some v \<Rightarrow> Inr v)"

text \<open>\<open>os.getenv(k, default)\<close>.\<close>

definition getenv :: "(string \<rightharpoonup> string) \<Rightarrow> string \<Rightarrow> string \<Rightarrow> string" where
  "getenv environ k d = (case environ k of None \<Rightarrow> d | Some v \<Rightarrow> v)"

text \<open>
  \<open>str.lower()\<close> on the ASCII letters. The result is only compared with \<open>"true"\<close>, and no
  character outside ASCII lowers to one of t, r, u, e.
\<close>

definition lower_char :: "char \<Rightarrow> char" where
  "lower_char c =
     (case map_of (zip ''ABCDEFGHIJKLMNOPQRSTUVWXYZ'' ''abcdefghijklmnopqrstuvwxyz'') c of
        None \<Rightarrow> c
      | Some l \<Rightarrow> l)"

definition lower :: "string \<Rightarrow> string" where
  "lower s = map lower_char s"

subsection \<open>State\<close>

text \<open>
  A call the script makes to a collaborator, with its arguments. \<open>FilesUpload\<close> carries
  the keyword arguments \<open>channels\<close>, \<open>file\<close>, \<open>title\<close> and \<open>initial_comment\<close> of line 48
  to 53, and, as its third field, what the client finds at the path \<open>file\<close> when it is
  called: the contents it uploads (\<open>None\<close> when there is no such file).
\<close>

datatype call =
    Say string
  | InitiateChat string nat
  | FilesUpload string string "string option" string string
  | LoggerInfo string
  | LoggerError string

text \<open>
  The module globals of lines 15 to 19, the calls made so far, and the file system.
\<close>

record state =
  BOT_TOKEN :: string
  APP_TOKEN :: string
  SIGN_SECRET :: string
  CHANNEL :: string
  HALT :: bool
  calls :: "call list"
  disk :: "string \<rightharpoonup> string"
  handles :: "string list"

text \<open>
  What the collaborators do at each call site of the handler: \<open>None\<close> (or \<open>Inr\<close>) is a
  normal return, \<open>Some e\<close> (or \<open>Inl e\<close>) raises \<open>e\<close>. \<open>chat_outcome\<close> is the \<open>.summary\<close>
  that line 41 reads off the agent's result (or what that line raises);
  \<open>tmp_outcome\<close> is the random stem of the name that \<open>NamedTemporaryFile\<close>
  settles on.
\<close>

record outcomes =
  say_halt_outcome :: "exn option"
  say_ack_outcome :: "exn option"
  chat_outcome :: "exn + string"
  tmp_outcome :: "exn + string"
  write_outcome :: "exn option"
  flush_outcome :: "exn option"
  upload_outcome :: "exn option"
  close_outcome :: "exn option"
  say_error_outcome :: "exn option"

subsection \<open>Startup (lines 15 to 25)\<close>

text \<open>
  \<open>os.environ[...]\<close> raises \<open>KeyError\<close> on an absent variable, \<open>os.getenv\<close> falls back to
  its default. The two arguments after the environment are what building the agent
  (lines 22 and 23) and the application (line 25) do. The process starts with no call
  made; the file system is whatever it is.
\<close>

definition startup ::
  "(string \<rightharpoonup> string) \<Rightarrow> exn option \<Rightarrow> exn option \<Rightarrow> (string \<rightharpoonup> string) \<Rightarrow> exn + state" where
  "startup environ agent_init app_init fs =
     (case getitem environ ''SLACK_BOT_TOKEN'' of
        Inl e \<Rightarrow> Inl e
      | Inr bot_token \<Rightarrow>
     (case getitem environ ''SLACK_APP_TOKEN'' of
        Inl e \<Rightarrow> Inl e
      | Inr app_token \<Rightarrow>
     (case getitem environ ''SLACK_SIGNING_SECRET'' of
        Inl e \<Rightarrow> Inl e
      | Inr sign_secret \<Rightarrow>
     (let channel = getenv environ ''BUILD_BOT_CHANNEL'' ''#build-bot'';
          halt = (lower (getenv environ ''HALT_PIPELINE'' ''false'') = ''true'')
      in case agent_init of
           Some e \<Rightarrow> Inl e
         | None \<Rightarrow>
        (case app_init of
           Some e \<Rightarrow> Inl e
         | None \<Rightarrow>
             Inr \<lparr>BOT_TOKEN = bot_token, APP_TOKEN = app_token, SIGN_SECRET = sign_secret,
                  CHANNEL = channel, HALT = halt, calls = [], disk = fs,
                  handles = []\<rparr>)))))"

subsection \<open>The collaborators\<close>

definition say :: "string \<Rightarrow> exn option \<Rightarrow> state \<Rightarrow> exn option \<times> state" where
  "say msg out s = (out, s\<lparr>calls := calls s @ [Say msg]\<rparr>)"

definition initiate_chat :: "string \<Rightarrow> nat \<Rightarrow> exn + string \<Rightarrow> state \<Rightarrow> (exn + string) \<times> state" where
  "initiate_chat msg max_turns out s = (out, s\<lparr>calls := calls s @ [InitiateChat msg max_turns]\<rparr>)"

definition files_upload ::
  "string \<Rightarrow> string \<Rightarrow> string \<Rightarrow> string \<Rightarrow> exn option \<Rightarrow> state \<Rightarrow> exn option \<times> state" where
  "files_upload channels file title initial_comment out s =
     (out, s\<lparr>calls := calls s @ [FilesUpload channels file (disk s file) title initial_comment]\<rparr>)"

text \<open>
  \<open>logger.info\<close> and \<open>logger.error\<close> of a \<open>logging.Logger\<close> do not raise: the logging
  module handles the errors of its handlers itself.
\<close>

definition logger_info :: "string \<Rightarrow> state \<Rightarrow> state" where
  "logger_info msg s = s\<lparr>calls := calls s @ [LoggerInfo msg]\<rparr>"

definition logger_error :: "string \<Rightarrow> state \<Rightarrow> state" where
  "logger_error msg s = s\<lparr>calls := calls s @ [LoggerError msg]\<rparr>"

subsection \<open>The temporary file\<close>

text \<open>
  The object \<open>tempfile.NamedTemporaryFile\<close> returns: its path (\<open>tmp.name\<close>), its
  \<open>delete\<close> flag and the text written but not yet flushed.
\<close>

record tmpfile =
  tf_name :: string
  tf_delete :: bool
  tf_buffer :: string

text \<open>
  \<open>NamedTemporaryFile(mode, suffix=..., delete=...)\<close> creates a new, empty file whose name
  ends in the suffix and opens it. The name is one no file has (the file is created
  exclusively); when no such name is found the call raises \<open>FileExistsError\<close>.
\<close>

definition NamedTemporaryFile ::
  "string \<Rightarrow> bool \<Rightarrow> exn + string \<Rightarrow> state \<Rightarrow> (exn + tmpfile) \<times> state" where
  "NamedTemporaryFile suffix del out s =
     (case out of
        Inl e \<Rightarrow> (Inl e, s)
      | Inr stem \<Rightarrow>
          (let p = stem @ suffix in
           if disk s p \<noteq> None
           then (Inl (Raise FileExistsError ''[Errno 17] No usable temporary file name found''), s)
           else (Inr \<lparr>tf_name = p, tf_delete = del, tf_buffer = []\<rparr>,
                 s\<lparr>disk := (disk s)(p \<mapsto> []), handles := p # handles s\<rparr>)))"

text \<open>\<open>tmp.write(text)\<close> appends to the buffer of the file object.\<close>

definition tmp_write :: "tmpfile \<Rightarrow> string \<Rightarrow> exn option \<Rightarrow> exn + tmpfile" where
  "tmp_write tmp txt out =
     (case out of
        Some e \<Rightarrow> Inl e
      | None \<Rightarrow> Inr (tmp\<lparr>tf_buffer := tf_buffer tmp @ txt\<rparr>))"

text \<open>Moving the buffer to the file: what a successful flush does.\<close>

definition write_through :: "tmpfile \<Rightarrow> state \<Rightarrow> state" where
  "write_through tmp s =
     s\<lparr>disk := (disk s)(tf_name tmp \<mapsto>
           (case disk s (tf_name tmp) of None \<Rightarrow> [] | Some c \<Rightarrow> c) @ tf_buffer tmp)\<rparr>"

definition tmp_flush :: "tmpfile \<Rightarrow> exn option \<Rightarrow> state \<Rightarrow> (exn + tmpfile) \<times> state" where
  "tmp_flush tmp out s =
     (case out of
        Some e \<Rightarrow> (Inl e, s)
      | None \<Rightarrow> (Inr (tmp\<lparr>tf_buffer := []\<rparr>), write_through tmp s))"

text \<open>
  Leaving the \<open>with\<close> block closes the file: what is still buffered is flushed (when
  the close succeeds), the handle is released, and the file is unlinked only when the
  object was made with \<open>delete=True\<close>.
\<close>

definition tmp_close :: "tmpfile \<Rightarrow> exn option \<Rightarrow> state \<Rightarrow> exn option \<times> state" where
  "tmp_close tmp out s =
     (let s1 = (case out of None \<Rightarrow> write_through tmp s | Some e \<Rightarrow> s);
          s2 = s1\<lparr>handles := remove1 (tf_name tmp) (handles s1)\<rparr>;
          s3 = (if tf_delete tmp then s2\<lparr>disk := (disk s2)(tf_name tmp := None)\<rparr> else s2)
      in (out, s3))"

subsection \<open>The handler (lines 28 to 59)\<close>

text \<open>The three message texts of lines 31, 37 and 58, and the log text of line 59.\<close>

definition halt_message :: string where
  "halt_message = '':octagonal_sign: Pipeline halted ('' @ [CHR 0x60] @ ''HALT_PIPELINE=true'' @ [CHR 0x60] @ '').''"

definition ack_message :: "string \<Rightarrow> string" where
  "ack_message user = '':seedling: Working on spec for <@'' @ user @ ''> ...''"

definition error_message :: "exn \<Rightarrow> string" where
  "error_message e = '':x: Error generating spec: '' @ str_exn e"

definition error_log :: "exn \<Rightarrow> string" where
  "error_log e = ''Error: '' @ str_exn e"

text \<open>
  The body of the \<open>with\<close> statement (lines 45 to 53): write, flush, upload. It returns
  the exception that leaves the body, if any, and the file object as it is then.
\<close>

definition with_body ::
  "tmpfile \<Rightarrow> string \<Rightarrow> outcomes \<Rightarrow> state \<Rightarrow> (exn option \<times> tmpfile) \<times> state" where
  "with_body tmp spec_md env s =
     (case tmp_write tmp spec_md (write_outcome env) of
        Inl e \<Rightarrow> ((Some e, tmp), s)
      | Inr tmp1 \<Rightarrow>
     (case tmp_flush tmp1 (flush_outcome env) s of
        (Inl e, s1) \<Rightarrow> ((Some e, tmp1), s1)
      | (Inr tmp2, s1) \<Rightarrow>
     (case files_upload (CHANNEL s1) (tf_name tmp2) ''spec.md''
             ''Here is the generated spec.md :page_facing_up:'' (upload_outcome env) s1 of
        (r, s2) \<Rightarrow> ((r, tmp2), s2))))"

text \<open>
  The body of the \<open>try\<close> statement (lines 41 to 55). The \<open>with\<close> statement closes the
  file on the way out, whether its body raised or not; an exception of the close
  replaces the one of the body.
\<close>

definition try_body :: "string \<Rightarrow> outcomes \<Rightarrow> state \<Rightarrow> exn option \<times> state" where
  "try_body text env s =
     (case initiate_chat text 4 (chat_outcome env) s of
        (Inl e, s1) \<Rightarrow> (Some e, s1)
      | (Inr spec_md, s1) \<Rightarrow>
     (case NamedTemporaryFile ''.md'' False (tmp_outcome env) s1 of
        (Inl e, s2) \<Rightarrow> (Some e, s2)
      | (Inr tmp, s2) \<Rightarrow>
     (case with_body tmp spec_md env s2 of
        ((r, tmp1), s3) \<Rightarrow>
     (case tmp_close tmp1 (close_outcome env) s3 of
        (Some e, s4) \<Rightarrow> (Some e, s4)
      | (None, s4) \<Rightarrow>
     (case r of
        Some e \<Rightarrow> (Some e, s4)
      | None \<Rightarrow> (None, logger_info ''spec.md uploaded.'' s4))))))"

text \<open>
  \<open>handle_mention(body, say, logger)\<close>. The payload \<open>body\<close> is a dictionary whose
  \<open>"event"\<close> entry is a dictionary of strings.
\<close>

definition handle_mention ::
  "state \<Rightarrow> (string \<rightharpoonup> (string \<rightharpoonup> string)) \<Rightarrow> outcomes \<Rightarrow> exn option \<times> state" where
  "handle_mention s body env =
     (if HALT s then say halt_message (say_halt_outcome env) s
      else
     (case getitem body ''event'' of
        Inl e \<Rightarrow> (Some e, s)
      | Inr event \<Rightarrow>
     (case getitem event ''text'' of
        Inl e \<Rightarrow> (Some e, s)
      | Inr text \<Rightarrow>
     (case getitem body ''event'' of
        Inl e \<Rightarrow> (Some e, s)
      | Inr event2 \<Rightarrow>
     (case getitem event2 ''user'' of
        Inl e \<Rightarrow> (Some e, s)
      | Inr user \<Rightarrow>
     (case say (ack_message user) (say_ack_outcome env) s of
        (Some e, s1) \<Rightarrow> (Some e, s1)
      | (None, s1) \<Rightarrow>
     (case try_body text env s1 of
        (None, s2) \<Rightarrow> (None, s2)
      | (Some e, s2) \<Rightarrow>
          if is_Exception e then
            (case say (error_message e) (say_error_outcome env) s2 of
               (Some e2, s3) \<Rightarrow> (Some e2, s3)
             | (None, s3) \<Rightarrow> (None, logger_error (error_log e) s3))
          else (Some e, s2))))))))"

text \<open>The calls made between a state and a later one.\<close>

definition new_calls :: "state \<Rightarrow> state \<Rightarrow> call list" where
  "new_calls s s' = drop (length (calls s)) (calls s')"

subsection \<open>The process\<close>

text \<open>
  The transport hands each mention to the handler; an exception that leaves the handler
  ends that event only, and the process goes on with the next one. The list pairs each
  payload with what the collaborators do during it. (Handlers of several mentions may
  interleave at their \<open>await\<close> points; the events are taken one after another here.)
\<close>

fun handle_events :: "state \<Rightarrow> ((string \<rightharpoonup> (string \<rightharpoonup> string)) \<times> outcomes) list \<Rightarrow> state" where
  "handle_events s [] = s"
| "handle_events s ((body, env) # evs) = handle_events (snd (handle_mention s body env)) evs"

text \<open>
  Importing the module (lines 15 to 25), then \<open>main()\<close>: when the startup raises, the
  process ends there and no handler runs.
\<close>

definition main_process ::
  "(string \<rightharpoonup> string) \<Rightarrow> exn option \<Rightarrow> exn option \<Rightarrow> (string \<rightharpoonup> string) \<Rightarrow>
   ((string \<rightharpoonup> (string \<rightharpoonup> string)) \<times> outcomes) list \<Rightarrow> exn + state" where
  "main_process environ agent_init app_init fs evs =
     (case startup environ agent_init app_init fs of
        Inl e \<Rightarrow> Inl e
      | Inr s0 \<Rightarrow> Inr (handle_events s0 evs))"

subsection \<open>Vocabulary of the properties\<close>

text \<open>
  A payload is a Mention Event with the given text and user when both subscripts of
  lines 34 and 35 find their key.
\<close>

definition mention_event :: "(string \<rightharpoonup> (string \<rightharpoonup> string)) \<Rightarrow> string \<Rightarrow> string \<Rightarrow> bool" where
  "mention_event body text user =
     (case body ''event'' of
        None \<Rightarrow> False
      | Some event \<Rightarrow> event ''text'' = Some text \<and> event ''user'' = Some user)"

text \<open>
  The exceptions the collaborators hold ready for the steps of the \<open>try\<close> block, in
  program order: agent invocation, creation of the temporary file, write, flush,
  upload, close. The list is empty exactly when every step would succeed.
\<close>

definition step_failures :: "state \<Rightarrow> outcomes \<Rightarrow> exn list" where
  "step_failures s env =
     (case chat_outcome env of Inl e \<Rightarrow> [e] | Inr summary \<Rightarrow> []) @
     (case tmp_outcome env of
        Inl e \<Rightarrow> [e]
      | Inr stem \<Rightarrow>
          if disk s (stem @ ''.md'') \<noteq> None
          then [Raise FileExistsError ''[Errno 17] No usable temporary file name found'']
          else []) @
     (case write_outcome env of Some e \<Rightarrow> [e] | None \<Rightarrow> []) @
     (case flush_outcome env of Some e \<Rightarrow> [e] | None \<Rightarrow> []) @
     (case upload_outcome env of Some e \<Rightarrow> [e] | None \<Rightarrow> []) @
     (case close_outcome env of Some e \<Rightarrow> [e] | None \<Rightarrow> [])"

fun is_upload :: "call \<Rightarrow> bool" where
  "is_upload (FilesUpload channels file content title initial_comment) = True"
| "is_upload c = False"

subsection \<open>A concrete run\<close>

text \<open>
  An environment with the three required variables and nothing else, the payload of
  the login-flow mention, and collaborators that all succeed: the agent returns the
  given summary and the temporary file gets the given stem.
\<close>

definition scenario_environ :: "string \<rightharpoonup> string" where
  "scenario_environ =
     [''SLACK_BOT_TOKEN'' \<mapsto> ''xoxb-1'', ''SLACK_APP_TOKEN'' \<mapsto> ''xapp-1'',
      ''SLACK_SIGNING_SECRET'' \<mapsto> ''s3cret'']"

definition scenario_state :: state where
  "scenario_state =
     \<lparr>BOT_TOKEN = ''xoxb-1'', APP_TOKEN = ''xapp-1'', SIGN_SECRET = ''s3cret'',
      CHANNEL = ''#build-bot'', HALT = False, calls = [], disk = Map.empty, handles = []\<rparr>"

definition scenario_body :: "string \<rightharpoonup> (string \<rightharpoonup> string)" where
  "scenario_body =
     [''event'' \<mapsto> [''text'' \<mapsto> ''@PM-agent draft spec for login flow'', ''user'' \<mapsto> ''U123'']]"

definition succeeding :: "string \<Rightarrow> string \<Rightarrow> outcomes" where
  "succeeding summary stem =
     \<lparr>say_halt_outcome = None, say_ack_outcome = None, chat_outcome = Inr summary,
      tmp_outcome = Inr stem, write_outcome = None, flush_outcome = None,
      upload_outcome = None, close_outcome = None, say_error_outcome = None\<rparr>"

section \<open>Helper lemmas\<close>

lemmas scenario_defs = scenario_state_def scenario_body_def succeeding_def scenario_environ_def

lemmas try_defs =
  try_body_def with_body_def initiate_chat_def files_upload_def
  logger_info_def NamedTemporaryFile_def tmp_write_def tmp_flush_def
  tmp_close_def write_through_def Let_def

lemma new_calls_append [simp]: "new_calls s (s'\<lparr>calls := calls s @ cs\<rparr>) = cs"
  by (simp add: new_calls_def)

lemma new_calls_same [simp]: "new_calls s s = []"
  by (simp add: new_calls_def)

lemma new_calls_eq: "calls s' = calls s @ cs \<Longrightarrow> new_calls s s' = cs"
  by (simp add: new_calls_def)

lemma try_body_calls:
  "\<exists>mid. calls (snd (try_body text env s)) = calls s @ InitiateChat text 4 # mid \<and>
         (\<forall>m. Say m \<notin> set mid) \<and> (\<forall>t n. InitiateChat t n \<notin> set mid)"
  by (cases "chat_outcome env"; cases "tmp_outcome env"; cases "write_outcome env";
      cases "flush_outcome env"; cases "upload_outcome env"; cases "close_outcome env";
      simp add: try_defs)

lemma try_body_raises:
  "step_failures s env \<noteq> [] \<Longrightarrow> \<exists>e\<in>set (step_failures s env). fst (try_body text env s) = Some e"
  by (cases "chat_outcome env"; cases "tmp_outcome env"; cases "write_outcome env";
      cases "flush_outcome env"; cases "upload_outcome env"; cases "close_outcome env";
      auto simp add: try_defs step_failures_def split: if_splits)

lemma try_body_globals:
  "HALT (snd (try_body text env s)) = HALT s \<and> CHANNEL (snd (try_body text env s)) = CHANNEL s"
  by (cases "chat_outcome env"; cases "tmp_outcome env"; cases "write_outcome env";
      cases "flush_outcome env"; cases "upload_outcome env"; cases "close_outcome env";
      simp add: try_defs)

lemma step_failures_calls [simp]: "step_failures (s\<lparr>calls := cs\<rparr>) env = step_failures s env"
  by (simp add: step_failures_def split: sum.splits)

lemma handle_mention_unfold:
  assumes "\<not> HALT s" "mention_event body text user" "say_ack_outcome env = None"
  shows "handle_mention s body env =
     (case try_body text env (s\<lparr>calls := calls s @ [Say (ack_message user)]\<rparr>) of
        (None, s2) \<Rightarrow> (None, s2)
      | (Some e, s2) \<Rightarrow>
          if is_Exception e then
            (case say_error_outcome env of
               Some e2 \<Rightarrow> (Some e2, s2\<lparr>calls := calls s2 @ [Say (error_message e)]\<rparr>)
             | None \<Rightarrow> (None, s2\<lparr>calls := calls s2 @ [Say (error_message e), LoggerError (error_log e)]\<rparr>))
          else (Some e, s2))"
  using assms
  by (cases "try_body text env (s\<lparr>calls := calls s @ [Say (ack_message user)]\<rparr>)")
     (auto simp add: handle_mention_def mention_event_def getitem_def say_def logger_error_def
       split: option.splits)

lemma handle_mention_calls:
  assumes "\<not> HALT s" "mention_event body text user" "say_ack_outcome env = None"
  shows "\<exists>mid fin. new_calls s (snd (handle_mention s body env)) =
            Say (ack_message user) # InitiateChat text 4 # mid @ fin \<and>
          (\<forall>m. Say m \<notin> set mid) \<and> (\<forall>t n. InitiateChat t n \<notin> set mid) \<and>
          (fin = [] \<or> (\<exists>e. fin = [Say (error_message e)] \<or>
                           fin = [Say (error_message e), LoggerError (error_log e)]))"
proof -
  let ?s1 = "s\<lparr>calls := calls s @ [Say (ack_message user)]\<rparr>"
  obtain r s2 where t: "try_body text env ?s1 = (r, s2)"
    by (cases "try_body text env ?s1")
  from try_body_calls [of "text" env ?s1] t obtain mid where
    mid: "calls s2 = calls s @ Say (ack_message user) # InitiateChat text 4 # mid"
      "\<forall>m. Say m \<notin> set mid" "\<forall>t n. InitiateChat t n \<notin> set mid"
    by auto
  show ?thesis
  proof (cases r)
    case None
    with t mid assms have "new_calls s (snd (handle_mention s body env)) =
        Say (ack_message user) # InitiateChat text 4 # mid @ []"
      by (simp add: handle_mention_unfold new_calls_eq)
    with mid show ?thesis by blast
  next
    case (Some e)
    show ?thesis
    proof (cases "is_Exception e")
      case False
      with Some t mid assms have "new_calls s (snd (handle_mention s body env)) =
          Say (ack_message user) # InitiateChat text 4 # mid @ []"
        by (simp add: handle_mention_unfold new_calls_eq)
      with mid show ?thesis by blast
    next
      case True
      show ?thesis
      proof (cases "say_error_outcome env")
        case None
        with True Some t mid assms have "new_calls s (snd (handle_mention s body env)) =
            Say (ack_message user) # InitiateChat text 4 # mid @
            [Say (error_message e), LoggerError (error_log e)]"
          by (simp add: handle_mention_unfold new_calls_eq)
        with mid show ?thesis by blast
      next
        case (Some e2)
        with True \<open>r = Some e\<close> t mid assms have "new_calls s (snd (handle_mention s body env)) =
            Say (ack_message user) # InitiateChat text 4 # mid @ [Say (error_message e)]"
          by (simp add: handle_mention_unfold new_calls_eq)
        with mid show ?thesis by blast
      qed
    qed
  qed
qed

lemma handle_mention_not_event:
  assumes "\<not> HALT s" "\<forall>text user. \<not> mention_event body text user"
  shows "snd (handle_mention s body env) = s"
  using assms
  by (auto simp add: handle_mention_def mention_event_def getitem_def split: option.splits)

lemma handle_mention_ack_fails:
  assumes "\<not> HALT s" "mention_event body text user" "say_ack_outcome env = Some e"
  shows "handle_mention s body env = (Some e, s\<lparr>calls := calls s @ [Say (ack_message user)]\<rparr>)"
  using assms
  by (auto simp add: handle_mention_def mention_event_def getitem_def say_def split: option.splits)

lemma agent_invoked:
  assumes "\<not> HALT s" "InitiateChat text n \<in> set (new_calls s (snd (handle_mention s body env)))"
  shows "(\<exists>user. mention_event body text user) \<and> say_ack_outcome env = None \<and> n = 4"
proof (cases "\<exists>t u. mention_event body t u")
  case False
  with assms show ?thesis by (simp add: handle_mention_not_event)
next
  case True
  then obtain t u where m: "mention_event body t u" by blast
  show ?thesis
  proof (cases "say_ack_outcome env")
    case (Some e)
    with assms m show ?thesis by (simp add: handle_mention_ack_fails)
  next
    case None
    from handle_mention_calls [OF assms(1) m None] obtain mid fin where
      c: "new_calls s (snd (handle_mention s body env)) =
            Say (ack_message u) # InitiateChat t 4 # mid @ fin"
         "\<forall>t n. InitiateChat t n \<notin> set mid"
         "fin = [] \<or> (\<exists>e. fin = [Say (error_message e)] \<or>
                           fin = [Say (error_message e), LoggerError (error_log e)])"
      by blast
    with assms(2) have "text = t \<and> n = 4" by auto
    with m None show ?thesis by blast
  qed
qed

lemmas run_defs =
  handle_mention_def getitem_def say_def logger_error_def try_defs new_calls_def

lemma ack_not_error [simp]: "ack_message user \<noteq> error_message e"
  by (simp add: ack_message_def error_message_def)

lemma handle_mention_after_try:
  assumes "\<not> HALT s" "mention_event body text user" "say_ack_outcome env = None"
    and "s2 = snd (try_body text env (s\<lparr>calls := calls s @ [Say (ack_message user)]\<rparr>))"
    and "s' = snd (handle_mention s body env)"
  shows "disk s' = disk s2 \<and> handles s' = handles s2 \<and> HALT s' = HALT s2 \<and> CHANNEL s' = CHANNEL s2"
  using assms
  by (cases "try_body text env (s\<lparr>calls := calls s @ [Say (ack_message user)]\<rparr>)")
     (auto simp add: handle_mention_unfold split: option.splits)

lemma handle_mention_globals:
  "HALT (snd (handle_mention s body env)) = HALT s \<and>
   CHANNEL (snd (handle_mention s body env)) = CHANNEL s"
proof (cases "HALT s")
  case True
  then show ?thesis by (simp add: handle_mention_def say_def)
next
  case False
  show ?thesis
  proof (cases "\<exists>t u. mention_event body t u")
    case no: False
    with False show ?thesis by (simp add: handle_mention_not_event)
  next
    case True
    then obtain t u where m: "mention_event body t u" by blast
    show ?thesis
    proof (cases "say_ack_outcome env")
      case (Some e)
      with False m show ?thesis by (simp add: handle_mention_ack_fails)
    next
      case None
      with False m show ?thesis
        using handle_mention_after_try [OF False m None refl refl]
        by (simp add: try_body_globals)
    qed
  qed
qed

lemmas handle_mention_HALT = handle_mention_globals [THEN conjunct1]

lemmas handle_mention_CHANNEL = handle_mention_globals [THEN conjunct2]

lemma handle_events_HALT: "HALT (handle_events s evs) = HALT s"
  by (induction s evs rule: handle_events.induct) (simp_all add: handle_mention_HALT)

lemma try_body_written:
  assumes "chat_outcome env = Inr summary" "tmp_outcome env = Inr stem"
    "disk s (stem @ ''.md'') = None" "write_outcome env = None" "flush_outcome env = None"
  shows "fst (try_body text env s) =
           (case close_outcome env of Some e \<Rightarrow> Some e | None \<Rightarrow> upload_outcome env) \<and>
         calls (snd (try_body text env s)) =
           calls s @
           [InitiateChat text 4,
            FilesUpload (CHANNEL s) (stem @ ''.md'') (Some summary) ''spec.md''
              ''Here is the generated spec.md :page_facing_up:''] @
           (if upload_outcome env = None \<and> close_outcome env = None
            then [LoggerInfo ''spec.md uploaded.''] else [])"
  using assms
  by (cases "upload_outcome env"; cases "close_outcome env"; simp add: try_defs)

lemma try_body_file:
  assumes "chat_outcome env = Inr summary" "tmp_outcome env = Inr stem"
    "disk s (stem @ ''.md'') = None"
  shows "handles (snd (try_body text env s)) = handles s \<and>
         disk (snd (try_body text env s)) (stem @ ''.md'') \<noteq> None \<and>
         (write_outcome env = None \<and> flush_outcome env = None \<longrightarrow>
            disk (snd (try_body text env s)) (stem @ ''.md'') = Some summary)"
  using assms
  by (cases "write_outcome env"; cases "flush_outcome env"; cases "upload_outcome env";
      cases "close_outcome env"; simp add: try_defs)

lemma try_body_disk_frame:
  assumes "tmp_outcome env = Inr stem" "q \<noteq> stem @ ''.md''"
  shows "disk (snd (try_body text env s)) q = disk s q"
  using assms
  by (cases "chat_outcome env"; cases "write_outcome env"; cases "flush_outcome env";
      cases "upload_outcome env"; cases "close_outcome env"; simp add: try_defs)

lemma handle_mention_result:
  assumes "\<not> HALT s" "mention_event body text user" "say_ack_outcome env = None"
    and "r = fst (try_body text env (s\<lparr>calls := calls s @ [Say (ack_message user)]\<rparr>))"
    and "s2 = snd (try_body text env (s\<lparr>calls := calls s @ [Say (ack_message user)]\<rparr>))"
  shows "fst (handle_mention s body env) =
           (case r of
              None \<Rightarrow> None
            | Some e \<Rightarrow> if is_Exception e then say_error_outcome env else Some e) \<and>
         calls (snd (handle_mention s body env)) =
           calls s2 @
           (case r of
              None \<Rightarrow> []
            | Some e \<Rightarrow>
                if is_Exception e
                then Say (error_message e) #
                     (if say_error_outcome env = None then [LoggerError (error_log e)] else [])
                else [])"
  using assms
  by (cases "try_body text env (s\<lparr>calls := calls s @ [Say (ack_message user)]\<rparr>)")
     (auto simp add: handle_mention_unfold split: option.splits)

lemma step_failures_Nil:
  "step_failures s env = [] \<Longrightarrow>
     \<exists>summary stem. chat_outcome env = Inr summary \<and> tmp_outcome env = Inr stem \<and>
       disk s (stem @ ''.md'') = None \<and> write_outcome env = None \<and> flush_outcome env = None \<and>
       upload_outcome env = None \<and> close_outcome env = None"
  by (auto simp add: step_failures_def split: sum.splits option.splits if_splits)

lemma handle_mention_written:
  assumes "\<not> HALT s" "mention_event body text user" "say_ack_outcome env = None"
    and "chat_outcome env = Inr summary" "tmp_outcome env = Inr stem"
    and "disk s (stem @ ''.md'') = None" "write_outcome env = None" "flush_outcome env = None"
  shows "fst (handle_mention s body env) =
           (case (case close_outcome env of Some e \<Rightarrow> Some e | None \<Rightarrow> upload_outcome env) of
              None \<Rightarrow> None
            | Some e \<Rightarrow> if is_Exception e then say_error_outcome env else Some e) \<and>
         new_calls s (snd (handle_mention s body env)) =
           [Say (ack_message user), InitiateChat text 4,
            FilesUpload (CHANNEL s) (stem @ ''.md'') (Some summary) ''spec.md''
              ''Here is the generated spec.md :page_facing_up:''] @
           (if upload_outcome env = None \<and> close_outcome env = None
            then [LoggerInfo ''spec.md uploaded.''] else []) @
           (case (case close_outcome env of Some e \<Rightarrow> Some e | None \<Rightarrow> upload_outcome env) of
              None \<Rightarrow> []
            | Some e \<Rightarrow>
                if is_Exception e
                then Say (error_message e) #
                     (if say_error_outcome env = None then [LoggerError (error_log e)] else [])
                else [])"
proof -
  let ?s1 = "s\<lparr>calls := calls s @ [Say (ack_message user)]\<rparr>"
  have "disk ?s1 (stem @ ''.md'') = None" using assms(6) by simp
  from try_body_written [OF assms(4,5) this assms(7,8), of "text"]
    handle_mention_result [OF assms(1-3) refl refl]
  show ?thesis by (simp add: new_calls_def)
qed

lemma handle_mention_disk:
  assumes "\<not> HALT s" "mention_event body text user" "say_ack_outcome env = None"
  shows "disk (snd (handle_mention s body env)) =
           disk (snd (try_body text env (s\<lparr>calls := calls s @ [Say (ack_message user)]\<rparr>)))"
    and "handles (snd (handle_mention s body env)) =
           handles (snd (try_body text env (s\<lparr>calls := calls s @ [Say (ack_message user)]\<rparr>)))"
  using handle_mention_after_try [OF assms refl refl] by simp_all

lemma handle_mention_appends:
  "calls (snd (handle_mention s body env)) = calls s @ new_calls s (snd (handle_mention s body env))"
proof (cases "HALT s")
  case True
  then show ?thesis by (simp add: handle_mention_def say_def)
next
  case False
  show ?thesis
  proof (cases "\<exists>t u. mention_event body t u")
    case no: False
    with False show ?thesis by (simp add: handle_mention_not_event)
  next
    case True
    then obtain t u where m: "mention_event body t u" by blast
    show ?thesis
    proof (cases "say_ack_outcome env")
      case (Some e)
      with False m show ?thesis by (simp add: handle_mention_ack_fails)
    next
      case None
      from try_body_calls [of t env "s\<lparr>calls := calls s @ [Say (ack_message u)]\<rparr>"]
        handle_mention_result [OF False m None refl refl]
      show ?thesis by (auto simp add: new_calls_def)
    qed
  qed
qed

lemma new_calls_trans:
  "calls s1 = calls s @ xs \<Longrightarrow> calls s2 = calls s1 @ ys \<Longrightarrow> new_calls s s2 = xs @ ys"
  by (simp add: new_calls_def)

section \<open>Properties\<close>

text \<open>
  C2. While the halt flag is set the handler makes exactly one call, the fixed advisory
  message, whatever the payload is: no acknowledgment, no agent invocation, no upload,
  no file. What leaves the handler is what that one send does.
\<close>

theorem halted_sends_only_advisory:
  "HALT s \<Longrightarrow>
     handle_mention s body env =
       (say_halt_outcome env, s\<lparr>calls := calls s @ [Say halt_message]\<rparr>)"
  by (simp add: handle_mention_def say_def)

theorem halted_sends_only_advisory_witness:
  "HALT (scenario_state\<lparr>HALT := True\<rparr>) \<and>
   handle_mention (scenario_state\<lparr>HALT := True\<rparr>) scenario_body
       (succeeding ''## Login Flow Spec...'' ''tmpk3x9'') =
     (None, scenario_state\<lparr>HALT := True, calls := [Say halt_message]\<rparr>)"
  using halted_sends_only_advisory [of "scenario_state\<lparr>HALT := True\<rparr>" scenario_body
      "succeeding ''## Login Flow Spec...'' ''tmpk3x9''"]
  by (simp add: scenario_defs)

text \<open>
  C10. With the halt flag clear, a payload without the \<open>"event"\<close> object, or whose event
  lacks \<open>"text"\<close> or \<open>"user"\<close>, makes the handler raise \<open>KeyError\<close> for the missing key.
  The subscripts of lines 34 and 35 stand before the acknowledgment and outside the
  \<open>try\<close> statement, so the exception leaves the handler and the state is untouched:
  no acknowledgment, no error notification, no call at all.
\<close>

theorem missing_field_raises_KeyError:
  assumes "\<not> HALT s"
    and "body ''event'' = None \<or>
         (\<exists>event. body ''event'' = Some event \<and> (event ''text'' = None \<or> event ''user'' = None))"
  shows "\<exists>k\<in>{''event'', ''text'', ''user''}.
           handle_mention s body env = (Some (key_error k), s) \<and>
           class_of (key_error k) = KeyError"
  using assms
  by (auto simp add: handle_mention_def getitem_def key_error_def split: option.splits)

theorem missing_field_raises_KeyError_witness:
  "\<not> HALT scenario_state \<and>
   handle_mention scenario_state [''event'' \<mapsto> [''text'' \<mapsto> ''hello'']] (succeeding ''a'' ''b'') =
     (Some (Raise KeyError (CHR 0x27 # ''user'' @ [CHR 0x27])), scenario_state) \<and>
   new_calls scenario_state
     (snd (handle_mention scenario_state [''event'' \<mapsto> [''text'' \<mapsto> ''hello'']]
        (succeeding ''a'' ''b''))) = []"
  using missing_field_raises_KeyError [of scenario_state "[''event'' \<mapsto> [''text'' \<mapsto> ''hello'']]"
      "succeeding ''a'' ''b''"]
  by (simp add: scenario_defs handle_mention_def getitem_def key_error_def)

text \<open>
  C7. When the bot token, the application token or the signing secret is absent from the
  environment, the startup raises \<open>KeyError\<close> for an absent variable and the process ends
  with it, whatever events were waiting: no handler runs. When the startup succeeds, an
  absent \<open>BUILD_BOT_CHANNEL\<close> leaves the channel at \<open>#build-bot\<close> and an absent
  \<open>HALT_PIPELINE\<close> leaves the halt flag off.
\<close>

theorem startup_configuration:
  "(environ ''SLACK_BOT_TOKEN'' = None \<or> environ ''SLACK_APP_TOKEN'' = None \<or>
    environ ''SLACK_SIGNING_SECRET'' = None \<longrightarrow>
      (\<exists>k\<in>{''SLACK_BOT_TOKEN'', ''SLACK_APP_TOKEN'', ''SLACK_SIGNING_SECRET''}.
         environ k = None \<and> main_process environ agent_init app_init fs evs = Inl (key_error k))) \<and>
   (startup environ agent_init app_init fs = Inr s0 \<longrightarrow>
      (environ ''BUILD_BOT_CHANNEL'' = None \<longrightarrow> CHANNEL s0 = ''#build-bot'') \<and>
      (environ ''HALT_PIPELINE'' = None \<longrightarrow> \<not> HALT s0))"
  by (auto simp add: main_process_def startup_def getitem_def getenv_def lower_def lower_char_def
        Let_def split: option.splits)

theorem startup_configuration_witness:
  "main_process (scenario_environ(''SLACK_APP_TOKEN'' := None)) None None Map.empty
      [(scenario_body, succeeding ''a'' ''b'')] = Inl (key_error ''SLACK_APP_TOKEN'') \<and>
   startup scenario_environ None None Map.empty = Inr scenario_state \<and>
   CHANNEL scenario_state = ''#build-bot'' \<and> \<not> HALT scenario_state"
  using startup_configuration [of "scenario_environ(''SLACK_APP_TOKEN'' := None)" None None Map.empty
      "[(scenario_body, succeeding ''a'' ''b'')]" scenario_state]
    startup_configuration [of scenario_environ None None Map.empty "[]" scenario_state]
  by (auto simp add: scenario_defs startup_def getitem_def getenv_def lower_def lower_char_def
        Let_def key_error_def)

text \<open>
  C9. The halt flag is computed once, by the startup, from \<open>HALT_PIPELINE\<close> (lowered and
  compared with \<open>"true"\<close>, \<open>"false"\<close> when absent). The handler reads it and never
  assigns it: its value after an event is its value before, so every event of a run,
  however many came before it, meets the value the startup computed.
\<close>

theorem halt_flag_fixed:
  "HALT (snd (handle_mention s body env)) = HALT s \<and>
   (startup environ agent_init app_init fs = Inr s0 \<longrightarrow>
      HALT s0 = (lower (getenv environ ''HALT_PIPELINE'' ''false'') = ''true'') \<and>
      (\<forall>k\<le>length evs. HALT (handle_events s0 (take k evs)) = HALT s0))"
  by (auto simp add: handle_mention_HALT handle_events_HALT startup_def getitem_def Let_def
        split: option.splits)

theorem halt_flag_fixed_witness:
  "startup (scenario_environ(''HALT_PIPELINE'' \<mapsto> ''True'')) None None Map.empty =
     Inr (scenario_state\<lparr>HALT := True\<rparr>) \<and>
   HALT (handle_events (scenario_state\<lparr>HALT := True\<rparr>)
          [(scenario_body, succeeding ''a'' ''b''), (scenario_body, succeeding ''c'' ''d'')])"
proof -
  let ?s = "scenario_state\<lparr>HALT := True\<rparr>"
  let ?evs = "[(scenario_body, succeeding ''a'' ''b''), (scenario_body, succeeding ''c'' ''d'')]"
  have st: "startup (scenario_environ(''HALT_PIPELINE'' \<mapsto> ''True'')) None None Map.empty = Inr ?s"
    by (simp add: scenario_defs startup_def getitem_def getenv_def lower_def lower_char_def Let_def)
  with halt_flag_fixed [of ?s scenario_body "succeeding ''a'' ''b''"
      "scenario_environ(''HALT_PIPELINE'' \<mapsto> ''True'')" None None Map.empty ?s ?evs]
  have "\<forall>k\<le>length ?evs. HALT (handle_events ?s (take k ?evs)) = HALT ?s"
    by blast
  then have "HALT (handle_events ?s (take (length ?evs) ?evs)) = HALT ?s"
    by blast
  with st show ?thesis by (simp add: scenario_state_def)
qed

text \<open>
  C4. With the halt flag clear, when the agent is invoked and raises an error (an
  instance of \<open>Exception\<close>), the calls of the event are: the acknowledgment, the agent
  invocation, one error message whose text ends in \<open>str\<close> of the error, and the error
  log entry when that send returns. There is no upload and no temporary file.
\<close>

theorem agent_error_reported:
  assumes "\<not> HALT s"
    and "InitiateChat text n \<in> set (new_calls s (snd (handle_mention s body env)))"
    and "chat_outcome env = Inl e" and "is_Exception e"
  shows "\<exists>user. mention_event body text user \<and>
           new_calls s (snd (handle_mention s body env)) =
             [Say (ack_message user), InitiateChat text 4,
              Say ('':x: Error generating spec: '' @ str_exn e)] @
             (if say_error_outcome env = None then [LoggerError (''Error: '' @ str_exn e)] else []) \<and>
           filter is_upload (new_calls s (snd (handle_mention s body env))) = [] \<and>
           disk (snd (handle_mention s body env)) = disk s"
proof -
  from agent_invoked [OF assms(1,2)] obtain user where
    m: "mention_event body text user" and a: "say_ack_outcome env = None"
    by blast
  have t: "try_body text env (s\<lparr>calls := calls s @ [Say (ack_message user)]\<rparr>) =
      (Some e, s\<lparr>calls := calls s @ [Say (ack_message user), InitiateChat text 4]\<rparr>)"
    using assms(3) by (simp add: try_body_def initiate_chat_def)
  have "new_calls s (snd (handle_mention s body env)) =
             [Say (ack_message user), InitiateChat text 4,
              Say ('':x: Error generating spec: '' @ str_exn e)] @
             (if say_error_outcome env = None then [LoggerError (''Error: '' @ str_exn e)] else []) \<and>
           filter is_upload (new_calls s (snd (handle_mention s body env))) = [] \<and>
           disk (snd (handle_mention s body env)) = disk s"
    using assms(1,4) m a t
    by (cases "say_error_outcome env")
       (simp_all add: handle_mention_unfold new_calls_def error_message_def error_log_def)
  with m show ?thesis by blast
qed

theorem agent_error_reported_witness:
  "\<not> HALT scenario_state \<and> is_Exception (Raise Exception ''Request timed out.'') \<and>
   new_calls scenario_state
     (snd (handle_mention scenario_state scenario_body
        ((succeeding [] ''tmpk3x9'')\<lparr>chat_outcome := Inl (Raise Exception ''Request timed out.'')\<rparr>))) =
     [Say '':seedling: Working on spec for <@U123> ...'',
      InitiateChat ''@PM-agent draft spec for login flow'' 4,
      Say '':x: Error generating spec: Request timed out.'',
      LoggerError ''Error: Request timed out.'']"
  using agent_error_reported [of scenario_state "''@PM-agent draft spec for login flow''" 4 scenario_body
      "(succeeding [] ''tmpk3x9'')\<lparr>chat_outcome := Inl (Raise Exception ''Request timed out.'')\<rparr>"
      "Raise Exception ''Request timed out.''"]
  by (simp add: scenario_defs run_defs mention_event_def ack_message_def error_message_def error_log_def)

text \<open>
  C6. With the halt flag clear, the first call of a Mention Event is the acknowledgment
  naming the requesting user; it is not sent a second time, and the agent invocation
  (at most one) is among the calls after it.
\<close>

theorem acknowledgment_first:
  assumes "\<not> HALT s" and "mention_event body text user"
  shows "\<exists>rest. new_calls s (snd (handle_mention s body env)) =
                  Say ('':seedling: Working on spec for <@'' @ user @ ''> ...'') # rest \<and>
                Say ('':seedling: Working on spec for <@'' @ user @ ''> ...'') \<notin> set rest \<and>
                length (filter (\<lambda>c. \<exists>t n. c = InitiateChat t n) rest) \<le> 1"
proof (cases "say_ack_outcome env")
  case (Some e)
  with assms show ?thesis by (simp add: handle_mention_ack_fails ack_message_def)
next
  case None
  from handle_mention_calls [OF assms None] obtain mid fin where
    c: "new_calls s (snd (handle_mention s body env)) =
          Say (ack_message user) # InitiateChat text 4 # mid @ fin"
       "\<forall>m. Say m \<notin> set mid" "\<forall>t n. InitiateChat t n \<notin> set mid"
       "fin = [] \<or> (\<exists>e. fin = [Say (error_message e)] \<or>
                         fin = [Say (error_message e), LoggerError (error_log e)])"
    by blast
  have "Say (ack_message user) \<notin> set (InitiateChat text 4 # mid @ fin)"
    using c(2,4) by auto
  moreover have "filter (\<lambda>c. \<exists>t n. c = InitiateChat t n) mid = []"
    using c(3) by (auto simp add: filter_empty_conv)
  then have "length (filter (\<lambda>c. \<exists>t n. c = InitiateChat t n) (InitiateChat text 4 # mid @ fin)) \<le> 1"
    using c(4) by auto
  ultimately show ?thesis using c(1) by (simp add: ack_message_def)
qed

theorem acknowledgment_first_witness:
  "\<not> HALT scenario_state \<and>
   mention_event scenario_body ''@PM-agent draft spec for login flow'' ''U123'' \<and>
   hd (new_calls scenario_state
     (snd (handle_mention scenario_state scenario_body (succeeding ''## Login Flow Spec...'' ''tmpk3x9'')))) =
     Say '':seedling: Working on spec for <@U123> ...''"
  using acknowledgment_first [of scenario_state scenario_body "''@PM-agent draft spec for login flow''"
      "''U123''" "succeeding ''## Login Flow Spec...'' ''tmpk3x9''"]
  by (auto simp add: scenario_defs mention_event_def)

text \<open>
  C1, as the code has it. The \<open>try\<close> statement starts after the acknowledgment, so what
  is caught are the failures of the agent invocation, of the temporary file (creation,
  write, flush, close) and of the upload. For a Mention Event with the halt flag clear
  whose acknowledgment was sent, and failures that are instances of \<open>Exception\<close>:
  \<^item> when no step fails, the handler returns normally after one upload and the
    completion log;
  \<^item> when a step fails, the calls of the event end with exactly one error message, whose
    text ends in \<open>str\<close> of the exception raised, followed by the error log entry when
    that send returns; no other message comes between the acknowledgment and it, and
    what leaves the handler is the outcome of that one send, not the exception caught.
\<close>

theorem failures_reported:
  assumes "\<not> HALT s" and "mention_event body text user" and "say_ack_outcome env = None"
    and "\<forall>e\<in>set (step_failures s env). is_Exception e"
  shows "(step_failures s env = [] \<longrightarrow>
            fst (handle_mention s body env) = None \<and>
            (\<exists>c. is_upload c \<and>
               new_calls s (snd (handle_mention s body env)) =
                 [Say (ack_message user), InitiateChat text 4, c, LoggerInfo ''spec.md uploaded.''])) \<and>
         (step_failures s env \<noteq> [] \<longrightarrow>
            (\<exists>e\<in>set (step_failures s env). \<exists>mid.
               new_calls s (snd (handle_mention s body env)) =
                 Say (ack_message user) # InitiateChat text 4 # mid @
                 Say ('':x: Error generating spec: '' @ str_exn e) #
                 (if say_error_outcome env = None then [LoggerError (''Error: '' @ str_exn e)] else []) \<and>
               (\<forall>m. Say m \<notin> set mid) \<and>
               fst (handle_mention s body env) = say_error_outcome env))"
proof (rule conjI; rule impI)
  let ?s1 = "s\<lparr>calls := calls s @ [Say (ack_message user)]\<rparr>"
  assume "step_failures s env = []"
  from step_failures_Nil [OF this] obtain summary stem where
    ok: "chat_outcome env = Inr summary" "tmp_outcome env = Inr stem"
      "disk ?s1 (stem @ ''.md'') = None" "write_outcome env = None" "flush_outcome env = None"
      "upload_outcome env = None" "close_outcome env = None"
    by auto
  from try_body_written [OF ok(1-5), of "text"] ok(6,7)
  have "fst (try_body text env ?s1) = None"
    and "calls (snd (try_body text env ?s1)) =
           calls s @ [Say (ack_message user), InitiateChat text 4,
             FilesUpload (CHANNEL s) (stem @ ''.md'') (Some summary) ''spec.md''
               ''Here is the generated spec.md :page_facing_up:'',
             LoggerInfo ''spec.md uploaded.'']"
    by simp_all
  with handle_mention_result [OF assms(1-3) refl refl]
  have "fst (handle_mention s body env) = None"
    and "new_calls s (snd (handle_mention s body env)) =
           [Say (ack_message user), InitiateChat text 4,
             FilesUpload (CHANNEL s) (stem @ ''.md'') (Some summary) ''spec.md''
               ''Here is the generated spec.md :page_facing_up:'',
             LoggerInfo ''spec.md uploaded.'']"
    by (simp_all add: new_calls_def)
  then show "fst (handle_mention s body env) = None \<and>
            (\<exists>c. is_upload c \<and>
               new_calls s (snd (handle_mention s body env)) =
                 [Say (ack_message user), InitiateChat text 4, c, LoggerInfo ''spec.md uploaded.''])"
    by simp
next
  let ?s1 = "s\<lparr>calls := calls s @ [Say (ack_message user)]\<rparr>"
  assume "step_failures s env \<noteq> []"
  then have "step_failures ?s1 env \<noteq> []" by simp
  from try_body_raises [OF this, of "text"] obtain e where
    e: "e \<in> set (step_failures s env)" "fst (try_body text env ?s1) = Some e"
    by auto
  with assms(4) have ex: "is_Exception e" by blast
  from try_body_calls [of "text" env ?s1] obtain mid where
    mid: "calls (snd (try_body text env ?s1)) =
            calls s @ Say (ack_message user) # InitiateChat text 4 # mid"
         "\<forall>m. Say m \<notin> set mid"
    by auto
  from handle_mention_result [OF assms(1-3) refl refl] e(2) ex mid(1)
  have "new_calls s (snd (handle_mention s body env)) =
          Say (ack_message user) # InitiateChat text 4 # mid @
          Say ('':x: Error generating spec: '' @ str_exn e) #
          (if say_error_outcome env = None then [LoggerError (''Error: '' @ str_exn e)] else [])"
    and "fst (handle_mention s body env) = say_error_outcome env"
    by (simp_all add: new_calls_def error_message_def error_log_def)
  with e(1) mid(2) show "\<exists>e\<in>set (step_failures s env). \<exists>mid.
               new_calls s (snd (handle_mention s body env)) =
                 Say (ack_message user) # InitiateChat text 4 # mid @
                 Say ('':x: Error generating spec: '' @ str_exn e) #
                 (if say_error_outcome env = None then [LoggerError (''Error: '' @ str_exn e)] else []) \<and>
               (\<forall>m. Say m \<notin> set mid) \<and>
               fst (handle_mention s body env) = say_error_outcome env"
    by blast
qed

theorem failures_reported_witness:
  "\<not> HALT scenario_state \<and>
   mention_event scenario_body ''@PM-agent draft spec for login flow'' ''U123'' \<and>
   step_failures scenario_state
     ((succeeding ''## Login Flow Spec...'' ''tmpk3x9'')\<lparr>upload_outcome := Some (Raise Exception ''not_in_channel'')\<rparr>) =
     [Raise Exception ''not_in_channel''] \<and>
   handle_mention scenario_state scenario_body
     ((succeeding ''## Login Flow Spec...'' ''tmpk3x9'')\<lparr>upload_outcome := Some (Raise Exception ''not_in_channel'')\<rparr>) =
   (None, scenario_state\<lparr>calls :=
      [Say '':seedling: Working on spec for <@U123> ...'',
       InitiateChat ''@PM-agent draft spec for login flow'' 4,
       FilesUpload ''#build-bot'' ''tmpk3x9.md'' (Some ''## Login Flow Spec...'') ''spec.md''
         ''Here is the generated spec.md :page_facing_up:'',
       Say '':x: Error generating spec: not_in_channel'',
       LoggerError ''Error: not_in_channel''],
      disk := [''tmpk3x9.md'' \<mapsto> ''## Login Flow Spec...'']\<rparr>)"
  using failures_reported [of scenario_state scenario_body "''@PM-agent draft spec for login flow''"
      "''U123''"
      "(succeeding ''## Login Flow Spec...'' ''tmpk3x9'')\<lparr>upload_outcome := Some (Raise Exception ''not_in_channel'')\<rparr>"]
  by (simp add: scenario_defs run_defs mention_event_def step_failures_def
        ack_message_def error_message_def error_log_def)

text \<open>
  C1 as stated fails for the acknowledgment send, which line 37 makes before the \<open>try\<close>
  statement: its exception leaves the handler, and neither an error message nor a log
  entry follows. And when the error message itself cannot be sent, its exception
  leaves the handler without a log entry.
\<close>

theorem acknowledgment_failure_propagates:
  "\<not> HALT scenario_state \<and>
   mention_event scenario_body ''@PM-agent draft spec for login flow'' ''U123'' \<and>
   handle_mention scenario_state scenario_body
     ((succeeding ''## Login Flow Spec...'' ''tmpk3x9'')\<lparr>say_ack_outcome := Some (Raise Exception ''channel_not_found'')\<rparr>) =
   (Some (Raise Exception ''channel_not_found''),
    scenario_state\<lparr>calls := [Say '':seedling: Working on spec for <@U123> ...'']\<rparr>) \<and>
   handle_mention scenario_state scenario_body
     ((succeeding ''## Login Flow Spec...'' ''tmpk3x9'')
        \<lparr>chat_outcome := Inl (Raise Exception ''Request timed out.''),
         say_error_outcome := Some (Raise Exception ''ratelimited'')\<rparr>) =
   (Some (Raise Exception ''ratelimited''),
    scenario_state\<lparr>calls :=
      [Say '':seedling: Working on spec for <@U123> ...'',
       InitiateChat ''@PM-agent draft spec for login flow'' 4,
       Say '':x: Error generating spec: Request timed out.'']\<rparr>)"
  by (simp add: scenario_defs run_defs mention_event_def ack_message_def error_message_def)

text \<open>
  C3, as the code has it. With the halt flag clear, when the agent is invoked and
  returns a summary, and the temporary file is created, written and flushed without
  error, the event makes exactly one upload call: to the configured channel, of the
  temporary file, whose contents are then exactly the summary, with the title
  \<open>spec.md\<close> and the fixed initial comment. In the login-flow scenario, started from
  an environment that sets neither the channel nor the halt flag, the calls are the
  acknowledgment mentioning U123, the agent invocation, that upload to \<open>#build-bot\<close>
  and the completion log.
\<close>

theorem summary_uploaded_once:
  "(\<not> HALT s \<and>
    InitiateChat text n \<in> set (new_calls s (snd (handle_mention s body env))) \<and>
    chat_outcome env = Inr summary \<and>
    tmp_outcome env = Inr stem \<and> disk s (stem @ ''.md'') = None \<and>
    write_outcome env = None \<and> flush_outcome env = None \<longrightarrow>
      filter is_upload (new_calls s (snd (handle_mention s body env))) =
        [FilesUpload (CHANNEL s) (stem @ ''.md'') (Some summary) ''spec.md''
           ''Here is the generated spec.md :page_facing_up:'']) \<and>
   (startup environ agent_init app_init fs = Inr s0 \<and>
    environ ''BUILD_BOT_CHANNEL'' = None \<and> environ ''HALT_PIPELINE'' = None \<and>
    fs (stem0 @ ''.md'') = None \<longrightarrow>
      new_calls s0 (snd (handle_mention s0 scenario_body (succeeding ''## Login Flow Spec...'' stem0))) =
        [Say '':seedling: Working on spec for <@U123> ...'',
         InitiateChat ''@PM-agent draft spec for login flow'' 4,
         FilesUpload ''#build-bot'' (stem0 @ ''.md'') (Some ''## Login Flow Spec...'') ''spec.md''
           ''Here is the generated spec.md :page_facing_up:'',
         LoggerInfo ''spec.md uploaded.''])"
proof (rule conjI; rule impI)
  assume h: "\<not> HALT s \<and>
    InitiateChat text n \<in> set (new_calls s (snd (handle_mention s body env))) \<and>
    chat_outcome env = Inr summary \<and>
    tmp_outcome env = Inr stem \<and> disk s (stem @ ''.md'') = None \<and>
    write_outcome env = None \<and> flush_outcome env = None"
  then obtain user where m: "mention_event body text user" and a: "say_ack_outcome env = None"
    using agent_invoked [of s "text" n body env] by blast
  from handle_mention_written [OF _ m a, of s summary stem] h
  show "filter is_upload (new_calls s (snd (handle_mention s body env))) =
        [FilesUpload (CHANNEL s) (stem @ ''.md'') (Some summary) ''spec.md''
           ''Here is the generated spec.md :page_facing_up:'']"
    by (simp split: option.splits)
next
  assume h: "startup environ agent_init app_init fs = Inr s0 \<and>
    environ ''BUILD_BOT_CHANNEL'' = None \<and> environ ''HALT_PIPELINE'' = None \<and>
    fs (stem0 @ ''.md'') = None"
  then have s0: "\<not> HALT s0" "CHANNEL s0 = ''#build-bot''" "disk s0 (stem0 @ ''.md'') = None"
    by (auto simp add: startup_def getitem_def getenv_def lower_def lower_char_def Let_def
          split: option.splits)
  have m: "mention_event scenario_body ''@PM-agent draft spec for login flow'' ''U123''"
    by (simp add: mention_event_def scenario_body_def)
  from handle_mention_written [OF s0(1) m, of "succeeding ''## Login Flow Spec...'' stem0"
      "''## Login Flow Spec...''" stem0] s0(2,3)
  show "new_calls s0 (snd (handle_mention s0 scenario_body (succeeding ''## Login Flow Spec...'' stem0))) =
        [Say '':seedling: Working on spec for <@U123> ...'',
         InitiateChat ''@PM-agent draft spec for login flow'' 4,
         FilesUpload ''#build-bot'' (stem0 @ ''.md'') (Some ''## Login Flow Spec...'') ''spec.md''
           ''Here is the generated spec.md :page_facing_up:'',
         LoggerInfo ''spec.md uploaded.'']"
    by (simp add: succeeding_def ack_message_def)
qed

theorem summary_uploaded_once_witness:
  "startup scenario_environ None None Map.empty = Inr scenario_state \<and>
   InitiateChat ''@PM-agent draft spec for login flow'' 4 \<in>
     set (new_calls scenario_state
       (snd (handle_mention scenario_state scenario_body (succeeding ''## Login Flow Spec...'' ''tmpk3x9'')))) \<and>
   filter is_upload (new_calls scenario_state
       (snd (handle_mention scenario_state scenario_body (succeeding ''## Login Flow Spec...'' ''tmpk3x9'')))) =
     [FilesUpload ''#build-bot'' ''tmpk3x9.md'' (Some ''## Login Flow Spec...'') ''spec.md''
        ''Here is the generated spec.md :page_facing_up:'']"
proof -
  let ?env = "succeeding ''## Login Flow Spec...'' ''tmpk3x9''"
  have st: "startup scenario_environ None None Map.empty = Inr scenario_state"
    by (simp add: scenario_defs startup_def getitem_def getenv_def lower_def lower_char_def Let_def)
  have inv: "InitiateChat ''@PM-agent draft spec for login flow'' 4 \<in>
     set (new_calls scenario_state (snd (handle_mention scenario_state scenario_body ?env)))"
    by (simp add: scenario_defs run_defs)
  have hyps: "\<not> HALT scenario_state \<and> chat_outcome ?env = Inr ''## Login Flow Spec...'' \<and>
      tmp_outcome ?env = Inr ''tmpk3x9'' \<and> disk scenario_state (''tmpk3x9'' @ ''.md'') = None \<and>
      write_outcome ?env = None \<and> flush_outcome ?env = None"
    by (simp add: scenario_defs)
  from summary_uploaded_once [of scenario_state "''@PM-agent draft spec for login flow''" 4
      scenario_body ?env "''## Login Flow Spec...''" "''tmpk3x9''"] inv hyps
  have "filter is_upload (new_calls scenario_state
       (snd (handle_mention scenario_state scenario_body ?env))) =
     [FilesUpload (CHANNEL scenario_state) (''tmpk3x9'' @ ''.md'') (Some ''## Login Flow Spec...'') ''spec.md''
        ''Here is the generated spec.md :page_facing_up:'']"
    by blast
  with st inv show ?thesis by (simp add: scenario_state_def)
qed

text \<open>
  C3 as stated fails when the agent returns its summary and the temporary file cannot
  be created: the handler reports the error and uploads nothing.
\<close>

theorem no_upload_when_tempfile_fails:
  "\<not> HALT scenario_state \<and>
   chat_outcome ((succeeding ''## Login Flow Spec...'' ''tmpk3x9'')
           \<lparr>tmp_outcome := Inl (Raise Exception ''[Errno 28] No space left on device'')\<rparr>) =
     Inr ''## Login Flow Spec...'' \<and>
   new_calls scenario_state
     (snd (handle_mention scenario_state scenario_body
        ((succeeding ''## Login Flow Spec...'' ''tmpk3x9'')
           \<lparr>tmp_outcome := Inl (Raise Exception ''[Errno 28] No space left on device'')\<rparr>))) =
     [Say '':seedling: Working on spec for <@U123> ...'',
      InitiateChat ''@PM-agent draft spec for login flow'' 4,
      Say '':x: Error generating spec: [Errno 28] No space left on device'',
      LoggerError ''Error: [Errno 28] No space left on device'']"
  by (simp add: scenario_defs run_defs ack_message_def error_message_def error_log_def)

text \<open>
  C5, as the code has it. The file is made with \<open>delete=False\<close> and nothing unlinks it.
  When the handling reaches the artifact write (the agent returned a summary and the
  temporary file was created), leaving the \<open>with\<close> block closes the file, so no handle
  stays open, but the file is still there when the handler is done, whatever the upload
  did; once written and flushed it holds the summary.
\<close>

theorem temporary_file_kept:
  assumes "\<not> HALT s"
    and "InitiateChat text n \<in> set (new_calls s (snd (handle_mention s body env)))"
    and "chat_outcome env = Inr summary"
    and "tmp_outcome env = Inr stem" and "disk s (stem @ ''.md'') = None"
  shows "handles (snd (handle_mention s body env)) = handles s \<and>
         disk (snd (handle_mention s body env)) (stem @ ''.md'') \<noteq> None \<and>
         (write_outcome env = None \<and> flush_outcome env = None \<longrightarrow>
            disk (snd (handle_mention s body env)) (stem @ ''.md'') = Some summary)"
proof -
  from agent_invoked [OF assms(1,2)] obtain user where
    m: "mention_event body text user" and a: "say_ack_outcome env = None"
    by blast
  let ?s1 = "s\<lparr>calls := calls s @ [Say (ack_message user)]\<rparr>"
  have "disk ?s1 (stem @ ''.md'') = None" using assms(5) by simp
  from try_body_file [OF assms(3,4) this, of "text"] handle_mention_disk [OF assms(1) m a]
  show ?thesis by simp
qed

theorem temporary_file_kept_witness:
  "\<not> HALT scenario_state \<and> disk scenario_state ''tmpk3x9.md'' = None \<and>
   disk (snd (handle_mention scenario_state scenario_body
      ((succeeding ''## Login Flow Spec...'' ''tmpk3x9'')
         \<lparr>upload_outcome := Some (Raise Exception ''not_in_channel'')\<rparr>))) ''tmpk3x9.md'' =
     Some ''## Login Flow Spec...'' \<and>
   handles (snd (handle_mention scenario_state scenario_body
      ((succeeding ''## Login Flow Spec...'' ''tmpk3x9'')
         \<lparr>upload_outcome := Some (Raise Exception ''not_in_channel'')\<rparr>))) = []"
proof -
  let ?env = "(succeeding ''## Login Flow Spec...'' ''tmpk3x9'')
         \<lparr>upload_outcome := Some (Raise Exception ''not_in_channel'')\<rparr>"
  have inv: "InitiateChat ''@PM-agent draft spec for login flow'' 4 \<in>
     set (new_calls scenario_state (snd (handle_mention scenario_state scenario_body ?env)))"
    by (simp add: scenario_defs run_defs)
  have hyps: "\<not> HALT scenario_state" "chat_outcome ?env = Inr ''## Login Flow Spec...''"
      "tmp_outcome ?env = Inr ''tmpk3x9''" "disk scenario_state (''tmpk3x9'' @ ''.md'') = None"
      "write_outcome ?env = None \<and> flush_outcome ?env = None"
    by (simp_all add: scenario_defs)
  from temporary_file_kept [OF hyps(1) inv hyps(2-4)] hyps(1,4,5)
  show ?thesis by (simp add: scenario_state_def)
qed

text \<open>
  C5 as stated fails on the successful run of the login-flow scenario: the handler
  returns after the upload and the temporary file still exists, with the summary in it.
\<close>

theorem temporary_file_left_behind:
  "handle_mention scenario_state scenario_body (succeeding ''## Login Flow Spec...'' ''tmpk3x9'') =
     (None, scenario_state\<lparr>calls :=
        [Say '':seedling: Working on spec for <@U123> ...'',
         InitiateChat ''@PM-agent draft spec for login flow'' 4,
         FilesUpload ''#build-bot'' ''tmpk3x9.md'' (Some ''## Login Flow Spec...'') ''spec.md''
           ''Here is the generated spec.md :page_facing_up:'',
         LoggerInfo ''spec.md uploaded.''],
        disk := [''tmpk3x9.md'' \<mapsto> ''## Login Flow Spec...'']\<rparr>) \<and>
   disk (snd (handle_mention scenario_state scenario_body
      (succeeding ''## Login Flow Spec...'' ''tmpk3x9''))) ''tmpk3x9.md'' \<noteq> None"
  by (simp add: scenario_defs run_defs ack_message_def)

text \<open>
  C8, as the code has it. The handler is run twice on the same payload with the halt
  flag clear; both times the agent is invoked and returns a summary, and the temporary
  file (under a name no file has yet, the two names distinct) is created, written and
  flushed. Then the two runs make two uploads, one each, of their own files: nothing is
  deduplicated. And the second run makes the calls and has the outcome it would have
  had on the state before the first run: the first run leaves it nothing but a file
  under another name.
\<close>

theorem two_independent_uploads:
  assumes "\<not> HALT s"
    and "s1 = snd (handle_mention s body env1)" and "s2 = snd (handle_mention s1 body env2)"
    and "InitiateChat text n1 \<in> set (new_calls s s1)"
    and "InitiateChat text n2 \<in> set (new_calls s1 s2)"
    and "chat_outcome env1 = Inr summary1" and "chat_outcome env2 = Inr summary2"
    and "tmp_outcome env1 = Inr stem1" and "tmp_outcome env2 = Inr stem2"
    and "write_outcome env1 = None" and "flush_outcome env1 = None"
    and "write_outcome env2 = None" and "flush_outcome env2 = None"
    and "disk s (stem1 @ ''.md'') = None" and "disk s (stem2 @ ''.md'') = None"
    and "stem1 \<noteq> stem2"
  shows "filter is_upload (new_calls s s2) =
           [FilesUpload (CHANNEL s) (stem1 @ ''.md'') (Some summary1) ''spec.md''
              ''Here is the generated spec.md :page_facing_up:'',
            FilesUpload (CHANNEL s) (stem2 @ ''.md'') (Some summary2) ''spec.md''
              ''Here is the generated spec.md :page_facing_up:''] \<and>
         new_calls s1 s2 = new_calls s (snd (handle_mention s body env2)) \<and>
         fst (handle_mention s1 body env2) = fst (handle_mention s body env2)"
proof -
  from agent_invoked [of s "text" n1 body env1] assms(1,2,4) obtain user where
    m: "mention_event body text user" and a1: "say_ack_outcome env1 = None"
    by blast
  have h1: "\<not> HALT s1" and c1: "CHANNEL s1 = CHANNEL s"
    using assms(1,2) by (simp_all add: handle_mention_HALT handle_mention_CHANNEL)
  from agent_invoked [of s1 "text" n2 body env2] h1 assms(3,5)
  have a2: "say_ack_outcome env2 = None"
    by blast
  have "disk s1 (stem2 @ ''.md'') = disk s (stem2 @ ''.md'')"
    using handle_mention_disk(1) [OF assms(1) m a1]
      try_body_disk_frame [OF assms(8), of "stem2 @ ''.md''" "text"
        "s\<lparr>calls := calls s @ [Say (ack_message user)]\<rparr>"] assms(2,16)
    by simp
  then have d2: "disk s1 (stem2 @ ''.md'') = None" using assms(15) by simp
  note w1 = handle_mention_written [OF assms(1) m a1 assms(6,8,14,10,11)]
  note w2 = handle_mention_written [OF h1 m a2 assms(7,9) d2 assms(12,13)]
  note w2' = handle_mention_written [OF assms(1) m a2 assms(7,9,15,12,13)]
  have u1: "filter is_upload (new_calls s s1) =
      [FilesUpload (CHANNEL s) (stem1 @ ''.md'') (Some summary1) ''spec.md''
         ''Here is the generated spec.md :page_facing_up:'']"
    using w1 assms(2) by (simp split: option.splits)
  have u2: "filter is_upload (new_calls s1 s2) =
      [FilesUpload (CHANNEL s) (stem2 @ ''.md'') (Some summary2) ''spec.md''
         ''Here is the generated spec.md :page_facing_up:'']"
    using w2 assms(3) c1 by (simp split: option.splits)
  have "calls s1 = calls s @ new_calls s s1" and "calls s2 = calls s1 @ new_calls s1 s2"
    using assms(2,3) handle_mention_appends by simp_all
  then have "new_calls s s2 = new_calls s s1 @ new_calls s1 s2"
    by (rule new_calls_trans)
  with u1 u2 have "filter is_upload (new_calls s s2) =
           [FilesUpload (CHANNEL s) (stem1 @ ''.md'') (Some summary1) ''spec.md''
              ''Here is the generated spec.md :page_facing_up:'',
            FilesUpload (CHANNEL s) (stem2 @ ''.md'') (Some summary2) ''spec.md''
              ''Here is the generated spec.md :page_facing_up:'']"
    by simp
  moreover have "new_calls s1 s2 = new_calls s (snd (handle_mention s body env2))"
    using w2 w2' assms(3) c1 by simp
  moreover have "fst (handle_mention s1 body env2) = fst (handle_mention s body env2)"
    using w2 w2' by simp
  ultimately show ?thesis by blast
qed

theorem two_independent_uploads_witness:
  "\<not> HALT scenario_state \<and>
   filter is_upload
     (new_calls scenario_state
        (snd (handle_mention
           (snd (handle_mention scenario_state scenario_body
              (succeeding ''## Login Flow Spec...'' ''tmpk3x9'')))
           scenario_body (succeeding ''## Login Flow Spec...'' ''tmpq7w2'')))) =
     [FilesUpload ''#build-bot'' ''tmpk3x9.md'' (Some ''## Login Flow Spec...'') ''spec.md''
        ''Here is the generated spec.md :page_facing_up:'',
      FilesUpload ''#build-bot'' ''tmpq7w2.md'' (Some ''## Login Flow Spec...'') ''spec.md''
        ''Here is the generated spec.md :page_facing_up:'']"
proof -
  let ?env1 = "succeeding ''## Login Flow Spec...'' ''tmpk3x9''"
  let ?env2 = "succeeding ''## Login Flow Spec...'' ''tmpq7w2''"
  let ?s1 = "snd (handle_mention scenario_state scenario_body ?env1)"
  let ?s2 = "snd (handle_mention ?s1 scenario_body ?env2)"
  have i1: "InitiateChat ''@PM-agent draft spec for login flow'' 4 \<in>
      set (new_calls scenario_state ?s1)"
    by (simp add: scenario_defs run_defs)
  have i2: "InitiateChat ''@PM-agent draft spec for login flow'' 4 \<in> set (new_calls ?s1 ?s2)"
    by (simp add: scenario_defs run_defs)
  have hyps: "\<not> HALT scenario_state"
      "chat_outcome ?env1 = Inr ''## Login Flow Spec...''"
      "chat_outcome ?env2 = Inr ''## Login Flow Spec...''"
      "tmp_outcome ?env1 = Inr ''tmpk3x9''" "tmp_outcome ?env2 = Inr ''tmpq7w2''"
      "write_outcome ?env1 = None" "flush_outcome ?env1 = None"
      "write_outcome ?env2 = None" "flush_outcome ?env2 = None"
      "disk scenario_state (''tmpk3x9'' @ ''.md'') = None"
      "disk scenario_state (''tmpq7w2'' @ ''.md'') = None"
      "''tmpk3x9'' \<noteq> ''tmpq7w2''"
    by (simp_all add: scenario_defs)
  from two_independent_uploads [OF hyps(1) refl refl i1 i2 hyps(2-12)] hyps(1)
  show ?thesis by (simp add: scenario_state_def)
qed

text \<open>
  C8 as stated fails when the agent succeeds both times and the flush of the second
  temporary file raises: the second run reports the error, and the two runs together
  make one upload.
\<close>

theorem one_upload_when_second_flush_fails:
  "\<not> HALT scenario_state \<and>
   InitiateChat ''@PM-agent draft spec for login flow'' 4 \<in>
     set (new_calls scenario_state
        (snd (handle_mention scenario_state scenario_body
           (succeeding ''## Login Flow Spec...'' ''tmpk3x9'')))) \<and>
   new_calls
     (snd (handle_mention scenario_state scenario_body
        (succeeding ''## Login Flow Spec...'' ''tmpk3x9'')))
     (snd (handle_mention
        (snd (handle_mention scenario_state scenario_body
           (succeeding ''## Login Flow Spec...'' ''tmpk3x9'')))
        scenario_body
        ((succeeding ''## Login Flow Spec...'' ''tmpq7w2'')
           \<lparr>flush_outcome := Some (Raise Exception ''[Errno 28] No space left on device'')\<rparr>))) =
     [Say '':seedling: Working on spec for <@U123> ...'',
      InitiateChat ''@PM-agent draft spec for login flow'' 4,
      Say '':x: Error generating spec: [Errno 28] No space left on device'',
      LoggerError ''Error: [Errno 28] No space left on device''] \<and>
   filter is_upload
     (new_calls scenario_state
        (snd (handle_mention
           (snd (handle_mention scenario_state scenario_body
              (succeeding ''## Login Flow Spec...'' ''tmpk3x9'')))
           scenario_body
           ((succeeding ''## Login Flow Spec...'' ''tmpq7w2'')
              \<lparr>flush_outcome := Some (Raise Exception ''[Errno 28] No space left on device'')\<rparr>)))) =
     [FilesUpload ''#build-bot'' ''tmpk3x9.md'' (Some ''## Login Flow Spec...'') ''spec.md''
        ''Here is the generated spec.md :page_facing_up:'']"
  by (simp add: scenario_defs run_defs ack_message_def error_message_def error_log_def)

end
